theory Spec2Isabelle
  imports Main "HOL-Library.Word"
begin

unbundle bit_operations_syntax

section \<open>Data model of tunif.c\<close>

text \<open>
  tunif.c is compiled in one of two ways: with \<open>__linux__\<close> defined (the clone-device
  convention, struct tun_pi in front of every packet) or without it (the BSD convention:
  a cloned interface, a 32-bit address family word in front of every packet and a
  routing socket).  Every \<open>#if defined(__linux__)\<close> of the source is a case
  distinction on this value.
\<close>

datatype platform = Linux | BSD

type_synonym byte = "8 word"
type_synonym u16 = "16 word"
type_synonym u32 = "32 word"

text \<open>
  Constants of the system headers the file includes.  The values for the branch without
  \<open>__linux__\<close> are those of FreeBSD (the branch uses SIOCIFCREATE2, TUNSIFHEAD and
  SA_SIZE, which are FreeBSD's).
\<close>

definition AF_INET :: int where "AF_INET = 2"

fun AF_INET6 :: "platform \<Rightarrow> int" where
  "AF_INET6 Linux = 10"
| "AF_INET6 BSD = 28"

definition AF_LINK :: int where "AF_LINK = 18"
definition ETH_P_IP :: int where "ETH_P_IP = 0x0800"
definition ETH_P_IPV6 :: int where "ETH_P_IPV6 = 0x86DD"

text \<open>
  What a call can end in besides returning: a failed \<open>assert\<close> (the process aborts),
  \<open>err\<close>/\<open>errx\<close> with EXIT_FAILURE (the process prints the message and exits), and
  an access C leaves undefined (outside an object, through a null pointer, signed
  overflow).  Messages are kept as the format string and its arguments.
\<close>

datatype arg = I int | S string

datatype fault =
    AssertFail string
  | Exit string "arg list"
  | Undefined string

text \<open>A diagnostic of \<open>warn\<close>/\<open>warnx\<close>: printed, and the call goes on.\<close>

type_synonym diag = "string \<times> arg list"

section \<open>The address family codec\<close>

text \<open>Network byte order: the most significant byte first.\<close>

definition htons :: "u16 \<Rightarrow> byte list" where
  "htons x = [ucast (drop_bit 8 x), ucast x]"

definition ntohs :: "byte list \<Rightarrow> u16" where
  "ntohs bs = push_bit 8 (ucast (bs ! 0)) OR ucast (bs ! 1)"

definition htonl :: "u32 \<Rightarrow> byte list" where
  "htonl x = [ucast (drop_bit 24 x), ucast (drop_bit 16 x), ucast (drop_bit 8 x), ucast x]"

definition ntohl :: "byte list \<Rightarrow> u32" where
  "ntohl bs = push_bit 24 (ucast (bs ! 0)) OR push_bit 16 (ucast (bs ! 1))
                OR push_bit 8 (ucast (bs ! 2)) OR ucast (bs ! 3)"

text \<open>
  \<open>tun_get_af(buf)\<close>.  The buffer is the list of its bytes.  The source reads the four
  bytes of the header without a length check ("the buffer must be longer than 4 bytes"):
  on a shorter buffer the read is outside the object, which the model reports as
  \<open>Undefined\<close>.  On Linux the header is struct tun_pi: \<open>flags\<close> in bytes 0-1,
  \<open>proto\<close> (big-endian) in bytes 2-3.  The result is the family and the diagnostics
  printed.
\<close>

definition tun_get_af :: "platform \<Rightarrow> byte list \<Rightarrow> fault + (u32 \<times> diag list)" where
  "tun_get_af pf buf =
     (if length buf < 4 then Inl (Undefined ''read outside buf'')
      else case pf of
        Linux \<Rightarrow>
          (let ether_type = uint (ntohs (take 2 (drop 2 buf))) in
           if ether_type = ETH_P_IP then Inr (word_of_int AF_INET, [])
           else if ether_type = ETH_P_IPV6 then Inr (word_of_int (AF_INET6 Linux), [])
           else Inr (255, [(''unknown ether frame type %x received.'', [I ether_type])]))
      | BSD \<Rightarrow> Inr (ntohl (take 4 buf), []))"

text \<open>
  \<open>tun_set_af(buf, af)\<close>.  The result is the return value, the buffer afterwards and
  the diagnostics printed.  On Linux an unsupported family returns -1 before the buffer
  is touched; otherwise \<open>flags\<close> is zeroed and \<open>proto\<close> written.  Without
  \<open>__linux__\<close> the family is written as it is.
\<close>

definition tun_set_af :: "platform \<Rightarrow> byte list \<Rightarrow> u32 \<Rightarrow> fault + (int \<times> byte list \<times> diag list)" where
  "tun_set_af pf buf af =
     (case pf of
        Linux \<Rightarrow>
          (case (if uint af = AF_INET then Some ETH_P_IP
                 else if uint af = AF_INET6 Linux then Some ETH_P_IPV6
                 else None) of
             None \<Rightarrow> Inr (-1, buf, [(''unsupported address family %d'', [I (sint af)])])
           | Some ether_type \<Rightarrow>
               if length buf < 4 then Inl (Undefined ''write outside buf'')
               else Inr (0, [0, 0] @ htons (word_of_int ether_type) @ drop 4 buf, []))
      | BSD \<Rightarrow>
          if length buf < 4 then Inl (Undefined ''write outside buf'')
          else Inr (0, htonl af @ drop 4 buf, []))"


section \<open>Socket addresses\<close>

text \<open>
  \<open>union sockunion\<close> overlays struct sockaddr, sockaddr_in, sockaddr_in6 and (without
  \<open>__linux__\<close>) sockaddr_dl.  All of them start with a two-byte header: \<open>sa_len\<close> and
  an 8-bit \<open>sa_family\<close> on BSD, a 16-bit \<open>sa_family\<close> on Linux (which has no
  \<open>sa_len\<close>; the field is then unused).  \<open>sa_data\<close> is the rest of the union, byte by
  byte, so that the members alias as they do in C:
  \<^item> sockaddr_in: \<open>sin_port\<close> in bytes 0-1 of \<open>sa_data\<close>, \<open>sin_addr\<close> in bytes 2-5,
    padding up to sizeof(struct sockaddr_in) = 16;
  \<^item> sockaddr_in6: \<open>sin6_port\<close> in bytes 0-1, \<open>sin6_flowinfo\<close> in 2-5,
    \<open>sin6_addr\<close> in 6-21, \<open>sin6_scope_id\<close> in 22-25; sizeof(struct sockaddr_in6) = 28.
\<close>

record sockunion =
  sa_len :: byte
  sa_family :: u16
  sa_data :: "byte list"

definition sizeof_sockaddr_in :: nat where "sizeof_sockaddr_in = 16"
definition sizeof_sockaddr_in6 :: nat where "sizeof_sockaddr_in6 = 28"

definition sin_addr_offset :: nat where "sin_addr_offset = 2"
definition sin6_addr_offset :: nat where "sin6_addr_offset = 6"

definition sin_addr :: "sockunion \<Rightarrow> byte list" where
  "sin_addr m = take 4 (drop sin_addr_offset (sa_data m))"

definition sin6_addr :: "sockunion \<Rightarrow> byte list" where
  "sin6_addr m = take 16 (drop sin6_addr_offset (sa_data m))"

text \<open>\<open>memset(p + off, c, n)\<close> on the bytes \<open>xs\<close> of an object that contains the range.\<close>

definition memset :: "byte list \<Rightarrow> nat \<Rightarrow> byte \<Rightarrow> nat \<Rightarrow> byte list" where
  "memset xs off c n = take off xs @ replicate n c @ drop (off + n) xs"

text \<open>The assignment \<open>sa.sa_family = af\<close>: \<open>sa_family_t\<close> has 8 bits on BSD, 16 on Linux.\<close>

fun store_sa_family :: "platform \<Rightarrow> int \<Rightarrow> u16" where
  "store_sa_family Linux af = word_of_int af"
| "store_sa_family BSD af = ucast (word_of_int af :: byte)"

section \<open>Netmask derivation\<close>

text \<open>
  \<open>tun_make_netmask(mask, af, prefix_len)\<close>.  The pointer \<open>mask\<close> is \<open>None\<close> when it is
  null.  Both assertions come first, then the switch on the family (\<open>max\<close>, \<open>sa_len\<close>
  and the place \<open>p\<close> of the address in the union), then the check of the prefix length
  against \<open>max\<close>.  The address bytes are cleared, the first \<open>q\<close> set to 0xff and, when
  \<open>r > 0\<close>, byte \<open>q\<close> set to \<open>(0xff00 >> r) & 0xff\<close>.  A union object always holds
  the address field; a byte list too short to hold it is not a union, and the model
  reports the write as \<open>Undefined\<close>.
\<close>

definition tun_make_netmask :: "platform \<Rightarrow> sockunion option \<Rightarrow> int \<Rightarrow> int \<Rightarrow> fault + (int \<times> sockunion)" where
  "tun_make_netmask pf mask_p af prefix_len =
     (case mask_p of
        None \<Rightarrow> Inl (AssertFail ''mask != NULL'')
      | Some m \<Rightarrow>
          if \<not> prefix_len > 0 then Inl (AssertFail ''prefix_len > 0'')
          else
            (case (if af = AF_INET then Some (32, sizeof_sockaddr_in, sin_addr_offset)
                   else if af = AF_INET6 pf then Some (128, sizeof_sockaddr_in6, sin6_addr_offset)
                   else None) of
               None \<Rightarrow> Inl (Exit ''unsupported address family %d.'' [I af])
             | Some (max_len, sa_len', p) \<Rightarrow>
                 if max_len < prefix_len then Inl (Exit ''invalid prefix length %d.'' [I prefix_len])
                 else if length (sa_data m) < p + nat (max_len div 8) then Inl (Undefined ''write outside mask'')
                 else
                   (let q = drop_bit 3 prefix_len;
                        r = prefix_len AND 7;
                        m1 = m\<lparr>sa_family := store_sa_family pf af\<rparr>;
                        m2 = (case pf of Linux \<Rightarrow> m1 | BSD \<Rightarrow> m1\<lparr>sa_len := of_nat sa_len'\<rparr>);
                        d0 = memset (sa_data m2) p 0 (nat (max_len div 8));
                        d1 = (if q > 0 then memset d0 p 0xff (nat q) else d0);
                        d2 = (if r > 0
                              then d1[p + nat q := word_of_int (drop_bit (nat r) 0xff00 AND 0xff)]
                              else d1)
                    in Inr (0, m2\<lparr>sa_data := d2\<rparr>))))"

text \<open>
  The netmask as the specification words it, to compare \<open>tun_make_netmask\<close> with: of
  \<open>n\<close> address bytes the first \<open>p / 8\<close> are 0xFF, the next one, when \<open>p % 8\<close> is not
  zero, is \<open>(0xFF00 >> (p % 8)) & 0xFF\<close>, and the remaining ones are zero.
\<close>

definition spec_netmask :: "nat \<Rightarrow> int \<Rightarrow> byte list" where
  "spec_netmask n p =
     replicate (nat (p div 8)) 0xFF
     @ (if p mod 8 \<noteq> 0 then [word_of_int (drop_bit (nat (p mod 8)) 0xFF00 AND 0xFF)] else [])
     @ replicate (n - nat (p div 8) - (if p mod 8 \<noteq> 0 then 1 else 0)) 0"

section \<open>Character arrays and the C string functions\<close>

text \<open>
  A char array is the list of its chars.  The string it holds ends before the first NUL;
  an array without NUL holds no string, and reading one from it runs off the array
  (\<open>None\<close>).  IFNAMSIZ and MAXPATHLEN are those of net/if.h and sys/param.h.
\<close>

definition NUL :: char where "NUL = CHR 0x00"

definition IFNAMSIZ :: nat where "IFNAMSIZ = 16"
definition MAXPATHLEN :: nat where "MAXPATHLEN = 1024"

definition c_str :: "char list \<Rightarrow> string option" where
  "c_str xs = (if NUL \<in> set xs then Some (takeWhile (\<lambda>c. c \<noteq> NUL) xs) else None)"

text \<open>
  The \<open>n\<close> chars \<open>strncpy(dst, src, n)\<close> writes: the chars of \<open>src\<close> up to its NUL,
  padded with NULs, or the first \<open>n\<close> chars of \<open>src\<close> when there is no NUL among them
  (the result is then not terminated).
\<close>

definition strncpy_chars :: "nat \<Rightarrow> char list \<Rightarrow> char list option" where
  "strncpy_chars n src =
     (let s = takeWhile (\<lambda>c. c \<noteq> NUL) (take n src) in
      if length s = n then Some s
      else if length s < length src then Some (s @ replicate (n - length s) NUL)
      else None)"

definition strncpy :: "char list \<Rightarrow> char list \<Rightarrow> nat \<Rightarrow> char list option" where
  "strncpy dst src n =
     (case strncpy_chars n src of
        None \<Rightarrow> None
      | Some cs \<Rightarrow> if length dst < n then None else Some (cs @ drop n dst))"

text \<open>
  \<open>strcat(dst, src)\<close> appends to the string \<open>dst\<close> already holds; it needs a string
  in both arrays and room for the result and its NUL.
\<close>

definition strcat :: "char list \<Rightarrow> char list \<Rightarrow> char list option" where
  "strcat dst src =
     (case c_str dst of
        None \<Rightarrow> None
      | Some a \<Rightarrow>
          (case c_str src of
             None \<Rightarrow> None
           | Some b \<Rightarrow>
               if length dst < length a + length b + 1 then None
               else Some (a @ b @ [NUL] @ drop (length a + length b + 1) dst)))"

text \<open>The \<open>%s\<close> argument of a message: the chars up to the NUL.\<close>

definition shown :: "char list \<Rightarrow> arg" where
  "shown xs = S (takeWhile (\<lambda>c. c \<noteq> NUL) xs)"

section \<open>The process and the kernel\<close>

text \<open>
  A \<open>char *\<close> argument is null, points to the exported array \<open>tun_if_name\<close> of line 61
  or to some other char array of the caller.
\<close>

datatype ptr = Null | Exported | Other nat

record ifreq =
  ifr_name :: "char list"
  ifr_flags :: int

datatype ioctl_req = TUNSETIFF | SIOCIFCREATE2 | TUNSIFMODE | TUNSIFHEAD | SIOCSIFFLAGS

definition IFF_UP :: int where "IFF_UP = 0x1"
definition IFF_POINTOPOINT :: int where "IFF_POINTOPOINT = 0x10"
definition IFF_TUN :: int where "IFF_TUN = 0x0001"

text \<open>
  \<open>socket(AF_INET, SOCK_DGRAM, 0)\<close> is the control socket, \<open>socket(PF_ROUTE, SOCK_RAW, 0)\<close>
  the routing socket.
\<close>

datatype sock = Control | Route

text \<open>
  struct rt_msghdr, with the fields \<open>tun_route_add\<close> sets (the others stay zero after the
  \<open>memset\<close>), and the message: the header and \<open>m_space\<close>.
\<close>

record rt_msghdr =
  rtm_msglen :: int
  rtm_version :: int
  rtm_type :: int
  rtm_flags :: int
  rtm_addrs :: int
  rtm_seq :: int

record rt_msg =
  m_rtm :: rt_msghdr
  m_space :: "byte list"

text \<open>An entry of the list \<open>getifaddrs\<close> returns; \<open>ifa_addr\<close> is \<open>None\<close> when null.\<close>

record ifaddrs =
  ifa_name :: string
  ifa_addr :: "sockunion option"

text \<open>
  What the process does to the outside, in order: diagnostics and system calls, each
  system call with its arguments and its result.
\<close>

datatype event =
    Warnx string "arg list"
  | Sys_socket sock int
  | Sys_open string int
  | Sys_ioctl_ifreq int ioctl_req ifreq "ifreq option"
  | Sys_ioctl_int int ioctl_req int "int option"
  | Sys_close int
  | Sys_getifaddrs "ifaddrs list option"
  | Sys_freeifaddrs
  | Sys_write int rt_msg int int

text \<open>
  The kernel, as far as the calls see it: what each system call answers.  An \<open>ioctl\<close>
  answers \<open>None\<close> when it fails (-1) and the argument object as the kernel leaves it
  when it succeeds; \<open>getifaddrs\<close> answers \<open>None\<close> when it fails.
\<close>

record kernel =
  k_socket :: "sock \<Rightarrow> int"
  k_open :: "string \<Rightarrow> int"
  k_ioctl_ifreq :: "int \<Rightarrow> ioctl_req \<Rightarrow> ifreq \<Rightarrow> ifreq option"
  k_ioctl_int :: "int \<Rightarrow> ioctl_req \<Rightarrow> int \<Rightarrow> int option"
  k_getifaddrs :: "ifaddrs list option"
  k_write :: "int \<Rightarrow> rt_msg \<Rightarrow> int \<Rightarrow> int"

text \<open>
  The state of the process: the exported array \<open>char tun_if_name[IFNAMSIZ]\<close>, the
  \<open>static int seq\<close> of \<open>tun_route_add\<close>, the other char arrays of the caller by
  address, and the events so far.
\<close>

record world =
  tun_if_name :: "char list"
  seq :: int
  heap :: "nat \<Rightarrow> char list option"
  trace :: "event list"

text \<open>At process start: both statics are zero and nothing has happened.\<close>

definition world0 :: "(nat \<Rightarrow> char list option) \<Rightarrow> world" where
  "world0 h = \<lparr>tun_if_name = replicate IFNAMSIZ NUL, seq = 0, heap = h, trace = []\<rparr>"

text \<open>
  A computation takes the state and gives a result or a fault, and the state after.
  \<open>bnd\<close> sequences two of them; a fault ends the sequence.
\<close>

type_synonym 'a io = "world \<Rightarrow> (fault + 'a) \<times> world"

definition ret :: "'a \<Rightarrow> 'a io" where
  "ret x w = (Inr x, w)"

definition fail :: "fault \<Rightarrow> 'a io" where
  "fail e w = (Inl e, w)"

definition bnd :: "'a io \<Rightarrow> ('a \<Rightarrow> 'b io) \<Rightarrow> 'b io" where
  "bnd m f w = (case m w of (Inl e, w') \<Rightarrow> (Inl e, w') | (Inr x, w') \<Rightarrow> f x w')"

definition emit :: "event \<Rightarrow> unit io" where
  "emit e w = (Inr (), w\<lparr>trace := trace w @ [e]\<rparr>)"

text \<open>A step that C leaves undefined when the value is \<open>None\<close>.\<close>

definition defined :: "string \<Rightarrow> 'a option \<Rightarrow> 'a io" where
  "defined what x = (case x of None \<Rightarrow> fail (Undefined what) | Some v \<Rightarrow> ret v)"

text \<open>
  Reading and writing the array a \<open>char *\<close> points to; \<open>deref\<close> is the array's
  content, if the pointer points to one.
\<close>

definition deref :: "world \<Rightarrow> ptr \<Rightarrow> char list option" where
  "deref w p = (case p of Null \<Rightarrow> None | Exported \<Rightarrow> Some (tun_if_name w) | Other a \<Rightarrow> heap w a)"

definition load :: "ptr \<Rightarrow> char list io" where
  "load p w = defined ''invalid pointer'' (deref w p) w"

definition store :: "ptr \<Rightarrow> char list \<Rightarrow> unit io" where
  "store p v w =
     (case p of
        Null \<Rightarrow> fail (Undefined ''invalid pointer'') w
      | Exported \<Rightarrow> ret () (w\<lparr>tun_if_name := v\<rparr>)
      | Other a \<Rightarrow> ret () (w\<lparr>heap := (heap w)(a \<mapsto> v)\<rparr>))"

definition sys_socket :: "kernel \<Rightarrow> sock \<Rightarrow> int io" where
  "sys_socket k s = bnd (emit (Sys_socket s (k_socket k s))) (\<lambda>_. ret (k_socket k s))"

definition sys_open :: "kernel \<Rightarrow> string \<Rightarrow> int io" where
  "sys_open k path = bnd (emit (Sys_open path (k_open k path))) (\<lambda>_. ret (k_open k path))"

definition sys_ioctl_ifreq :: "kernel \<Rightarrow> int \<Rightarrow> ioctl_req \<Rightarrow> ifreq \<Rightarrow> ifreq option io" where
  "sys_ioctl_ifreq k fd req ifr =
     bnd (emit (Sys_ioctl_ifreq fd req ifr (k_ioctl_ifreq k fd req ifr)))
       (\<lambda>_. ret (k_ioctl_ifreq k fd req ifr))"

definition sys_ioctl_int :: "kernel \<Rightarrow> int \<Rightarrow> ioctl_req \<Rightarrow> int \<Rightarrow> int option io" where
  "sys_ioctl_int k fd req v =
     bnd (emit (Sys_ioctl_int fd req v (k_ioctl_int k fd req v)))
       (\<lambda>_. ret (k_ioctl_int k fd req v))"

definition sys_close :: "int \<Rightarrow> unit io" where
  "sys_close fd = emit (Sys_close fd)"

definition sys_getifaddrs :: "kernel \<Rightarrow> ifaddrs list option io" where
  "sys_getifaddrs k = bnd (emit (Sys_getifaddrs (k_getifaddrs k))) (\<lambda>_. ret (k_getifaddrs k))"

definition sys_write :: "kernel \<Rightarrow> int \<Rightarrow> rt_msg \<Rightarrow> int \<Rightarrow> int io" where
  "sys_write k fd m l = bnd (emit (Sys_write fd m l (k_write k fd m l))) (\<lambda>_. ret (k_write k fd m l))"

section \<open>Creating the interface\<close>

text \<open>
  \<open>tun_alloc(tun_if_name)\<close>.  The parameter is named like the exported array and hides
  it: every \<open>tun_if_name\<close> in the body is the caller's pointer \<open>p\<close>.  Without
  \<open>__linux__\<close> the array \<open>tun_dev_name\<close> is declared without an initialiser and then
  appended to with \<open>strcat\<close>; its content at that point is whatever the stack holds,
  which the model takes as the argument \<open>tun_dev_name0\<close>.  Each \<open>err\<close> ends the
  process.  The two platform branches (lines 82-134) give \<open>tun_fd\<close>; the common tail
  (lines 136-148) brings the interface up.
\<close>

definition tun_alloc_linux :: "kernel \<Rightarrow> ptr \<Rightarrow> int io" where
  "tun_alloc_linux k p =
     bnd (sys_open k ''/dev/net/tun'') (\<lambda>tun_fd.
     if tun_fd = -1 then fail (Exit ''cannot create a control channel of the tun interface.'' [])
     else
       bnd (load p) (\<lambda>req.
       bnd (defined ''strncpy from tun_if_name'' (strncpy_chars IFNAMSIZ req)) (\<lambda>name.
       bnd (sys_ioctl_ifreq k tun_fd TUNSETIFF \<lparr>ifr_name = name, ifr_flags = IFF_TUN\<rparr>) (\<lambda>r.
       case r of
         None \<Rightarrow>
           bnd (sys_close tun_fd) (\<lambda>_.
           fail (Exit (''cannot create a tun interface %s.'' @ [CHR 0x0A]) [shown req]))
       | Some ifr \<Rightarrow>
           bnd (defined ''strncpy to tun_if_name'' (strncpy req (ifr_name ifr) IFNAMSIZ)) (\<lambda>new.
           bnd (store p new) (\<lambda>_.
           ret tun_fd))))))"

definition tun_alloc_bsd :: "kernel \<Rightarrow> char list \<Rightarrow> int \<Rightarrow> ptr \<Rightarrow> int io" where
  "tun_alloc_bsd k tun_dev_name0 udp_fd p =
     bnd (load p) (\<lambda>req.
     bnd (defined ''strncpy from tun_if_name'' (strncpy_chars IFNAMSIZ req)) (\<lambda>name.
     bnd (sys_ioctl_ifreq k udp_fd SIOCIFCREATE2 \<lparr>ifr_name = name, ifr_flags = 0\<rparr>) (\<lambda>r.
     case r of
       None \<Rightarrow> fail (Exit ''cannot create %s interface.'' [shown name])
     | Some ifr \<Rightarrow>
         bnd (defined ''strncpy to tun_if_name'' (strncpy req (ifr_name ifr) IFNAMSIZ)) (\<lambda>new.
         bnd (store p new) (\<lambda>_.
         bnd (defined ''strcat to tun_dev_name'' (strcat tun_dev_name0 (''/dev/'' @ [NUL]))) (\<lambda>d1.
         bnd (defined ''strcat to tun_dev_name'' (strcat d1 (ifr_name ifr))) (\<lambda>tun_dev_name.
         bnd (defined ''open of tun_dev_name'' (c_str tun_dev_name)) (\<lambda>path.
         bnd (sys_open k path) (\<lambda>tun_fd.
         if tun_fd = -1 then fail (Exit ''cannot open a tun device %s.'' [S path])
         else
           bnd (sys_ioctl_int k tun_fd TUNSIFMODE IFF_POINTOPOINT) (\<lambda>r1.
           case r1 of
             None \<Rightarrow> fail (Exit (''failed to set TUNSIFMODE to %x.'' @ [CHR 0x0A]) [I IFF_POINTOPOINT])
           | Some _ \<Rightarrow>
               bnd (sys_ioctl_int k tun_fd TUNSIFHEAD 1) (\<lambda>r2.
               case r2 of
                 None \<Rightarrow> fail (Exit (''failed to set TUNSIFHEAD to %d.'' @ [CHR 0x0A]) [I 1])
               | Some _ \<Rightarrow> ret tun_fd)))))))))))"

definition tun_alloc :: "platform \<Rightarrow> kernel \<Rightarrow> char list \<Rightarrow> ptr \<Rightarrow> int io" where
  "tun_alloc pf k tun_dev_name0 p =
     (if p = Null then fail (AssertFail ''tun_if_name != NULL'')
      else
        bnd (sys_socket k Control) (\<lambda>udp_fd.
        if udp_fd = -1 then fail (Exit ''failed to open control socket for tun creation.'' [])
        else
          bnd (case pf of
                 Linux \<Rightarrow> tun_alloc_linux k p
               | BSD \<Rightarrow> tun_alloc_bsd k tun_dev_name0 udp_fd p) (\<lambda>tun_fd.
          bnd (load p) (\<lambda>cur.
          bnd (defined ''strncpy from tun_if_name'' (strncpy_chars IFNAMSIZ cur)) (\<lambda>name.
          bnd (sys_ioctl_ifreq k udp_fd SIOCSIFFLAGS \<lparr>ifr_name = name, ifr_flags = IFF_UP\<rparr>) (\<lambda>r.
          case r of
            None \<Rightarrow> fail (Exit ''failed to make %s up.'' [shown cur])
          | Some _ \<Rightarrow>
              bnd (sys_close udp_fd) (\<lambda>_.
              ret tun_fd)))))))"

text \<open>
  A kernel to run the calls on: the control socket is descriptor 3, every device opens as
  descriptor 4, the routing socket is 5; the interface a creation request makes is named
  tun0 whatever name was asked for; every other call succeeds and leaves its argument as
  it was; the interface list has the loopback and tun0, each with a link-layer address, and
  an IPv4 address of the loopback.
\<close>

definition name16 :: "string \<Rightarrow> char list" where
  "name16 s = s @ replicate (IFNAMSIZ - length s) NUL"

definition sockaddr_dl :: "byte list \<Rightarrow> sockunion" where
  "sockaddr_dl d = \<lparr>sa_len = of_nat (length d + 2), sa_family = word_of_int AF_LINK, sa_data = d\<rparr>"

definition demo_ifaddrs :: "ifaddrs list" where
  "demo_ifaddrs =
     [\<lparr>ifa_name = ''lo0'', ifa_addr = Some (sockaddr_dl (replicate 52 0))\<rparr>,
      \<lparr>ifa_name = ''lo0'',
        ifa_addr = Some \<lparr>sa_len = 16, sa_family = 2, sa_data = [0, 0, 127, 0, 0, 1] @ replicate 8 0\<rparr>\<rparr>,
      \<lparr>ifa_name = ''tun0'', ifa_addr = Some (sockaddr_dl ([0, 2, 0x17, 4, 0, 0] @ replicate 46 0))\<rparr>]"

definition demo_kernel :: kernel where
  "demo_kernel =
     \<lparr>k_socket = (\<lambda>s. case s of Control \<Rightarrow> 3 | Route \<Rightarrow> 5),
      k_open = (\<lambda>path. 4),
      k_ioctl_ifreq = (\<lambda>fd req ifr.
         if req = TUNSETIFF \<or> req = SIOCIFCREATE2 then Some (ifr\<lparr>ifr_name := name16 ''tun0''\<rparr>)
         else Some ifr),
      k_ioctl_int = (\<lambda>fd req v. Some v),
      k_getifaddrs = Some demo_ifaddrs,
      k_write = (\<lambda>fd m l. l)\<rparr>"

text \<open>
  Processes to run the calls in: one that has no char array besides the exported one,
  which holds the given name (as after \<open>tun_alloc\<close> on it), and the arrays of a
  caller that has one array of its own, at address 0.
\<close>

definition no_arrays :: "nat \<Rightarrow> char list option" where
  "no_arrays a = None"

definition own_array :: "char list \<Rightarrow> nat \<Rightarrow> char list option" where
  "own_array v a = (if a = 0 then Some v else None)"

definition demo_world :: "string \<Rightarrow> world" where
  "demo_world name = world0 no_arrays\<lparr>tun_if_name := name16 name\<rparr>"

section \<open>Adding a route\<close>

text \<open>
  Constants of net/route.h, and the sizes the message layout depends on (FreeBSD on a
  64-bit machine: \<open>sizeof(long)\<close> is 8, \<open>sizeof(struct rt_msghdr)\<close> is 152).
\<close>

definition RTF_UP :: int where "RTF_UP = 0x1"
definition RTF_HOST :: int where "RTF_HOST = 0x4"
definition RTF_STATIC :: int where "RTF_STATIC = 0x800"
definition RTA_DST :: int where "RTA_DST = 0x1"
definition RTA_GATEWAY :: int where "RTA_GATEWAY = 0x2"
definition RTA_NETMASK :: int where "RTA_NETMASK = 0x4"
definition RTM_ADD :: int where "RTM_ADD = 0x1"
definition RTM_VERSION :: int where "RTM_VERSION = 5"
definition sizeof_long :: nat where "sizeof_long = 8"
definition sizeof_rt_msghdr :: nat where "sizeof_rt_msghdr = 152"
definition sizeof_m_space :: nat where "sizeof_m_space = 512"
definition INT_MAX :: int where "INT_MAX = 2147483647"

text \<open>
  The bytes of a union on BSD, header first, and a union from its bytes; \<open>memcpy\<close> of
  some bytes into a union at an offset, which must stay inside the union.
\<close>

definition sockunion_bytes :: "sockunion \<Rightarrow> byte list" where
  "sockunion_bytes so = sa_len so # ucast (sa_family so) # sa_data so"

definition bytes_sockunion :: "byte list \<Rightarrow> sockunion" where
  "bytes_sockunion bs = \<lparr>sa_len = hd bs, sa_family = ucast (hd (tl bs)), sa_data = drop 2 bs\<rparr>"

definition memcpy_so :: "sockunion \<Rightarrow> nat \<Rightarrow> byte list \<Rightarrow> sockunion option" where
  "memcpy_so so off bs =
     (if length (sockunion_bytes so) < off + length bs then None
      else Some (bytes_sockunion
                   (take off (sockunion_bytes so) @ bs @ drop (off + length bs) (sockunion_bytes so))))"

text \<open>
  The automatic variables \<open>so_dst\<close>, \<open>so_gate\<close> and \<open>so_mask\<close> of \<open>tun_route_add\<close>
  have no initialiser: what they hold when the call starts is an input of the model.
\<close>

record locals =
  so_dst :: sockunion
  so_gate :: sockunion
  so_mask :: sockunion

text \<open>
  Lines 271-313, the switch on the family, for one family: the destination is cleared
  over the size of the family's sockaddr, given its length and family, and receives the
  first \<open>alen\<close> bytes at \<open>addr\<close> (a read outside the caller's buffer when it has
  fewer); when the prefix is shorter than \<open>maxp\<close> the mask is prepared the same way and
  filled by \<open>tun_make_netmask\<close>, whose return value is not looked at, RTA_NETMASK is
  added and RTF_HOST removed.  The result is \<open>rtm_addrs\<close>, \<open>rtm_flags\<close> and the two
  unions.
\<close>

definition route_family ::
  "int \<Rightarrow> nat \<Rightarrow> nat \<Rightarrow> int \<Rightarrow> nat \<Rightarrow> sockunion \<Rightarrow> sockunion \<Rightarrow> byte list \<Rightarrow> int
     \<Rightarrow> fault + (int \<times> int \<times> sockunion \<times> sockunion)" where
  "route_family af sz alen maxp addr_off dst0 mask0 a prefix_len =
     (case memcpy_so dst0 0 (replicate sz 0) of
        None \<Rightarrow> Inl (Undefined ''write outside so_dst'')
      | Some d1 \<Rightarrow>
          if length a < alen then Inl (Undefined ''read outside addr'')
          else
            (case memcpy_so (d1\<lparr>sa_len := of_nat sz, sa_family := store_sa_family BSD af\<rparr>)
                    (2 + addr_off) (take alen a) of
               None \<Rightarrow> Inl (Undefined ''write outside so_dst'')
             | Some d2 \<Rightarrow>
                 if prefix_len < maxp then
                   (case memcpy_so mask0 0 (replicate sz 0) of
                      None \<Rightarrow> Inl (Undefined ''write outside so_mask'')
                    | Some m1 \<Rightarrow>
                        (case tun_make_netmask BSD
                                (Some (m1\<lparr>sa_len := of_nat sz, sa_family := store_sa_family BSD af\<rparr>))
                                af prefix_len of
                           Inl e \<Rightarrow> Inl e
                         | Inr (_, m2) \<Rightarrow>
                             Inr (RTA_DST OR RTA_NETMASK,
                                  (RTF_UP OR RTF_HOST OR RTF_STATIC) AND NOT RTF_HOST, d2, m2)))
                 else Inr (RTA_DST, RTF_UP OR RTF_HOST OR RTF_STATIC, d2, mask0)))"

text \<open>The switch itself; \<open>None\<close> is its default case.\<close>

definition route_sockaddrs ::
  "sockunion \<Rightarrow> sockunion \<Rightarrow> int \<Rightarrow> byte list \<Rightarrow> int
     \<Rightarrow> fault + (int \<times> int \<times> sockunion \<times> sockunion) option" where
  "route_sockaddrs dst0 mask0 af a prefix_len =
     (if af = AF_INET then
        map_sum id Some
          (route_family AF_INET sizeof_sockaddr_in 4 32 sin_addr_offset dst0 mask0 a prefix_len)
      else if af = AF_INET6 BSD then
        map_sum id Some
          (route_family (AF_INET6 BSD) sizeof_sockaddr_in6 16 128 sin6_addr_offset dst0 mask0 a
             prefix_len)
      else Inr None)"

text \<open>
  Lines 320-326, the loop over the interface list.  \<open>name\<close> is the exported array
  \<open>tun_if_name\<close>, \<open>sdlp\<close> the link-layer address found so far.  \<open>ifa_addr\<close> is
  dereferenced without a check, and \<open>strcmp\<close> needs a string in \<open>tun_if_name\<close>.  There
  is no \<open>break\<close>: the last matching entry is the one kept.
\<close>

fun find_sdl :: "char list \<Rightarrow> ifaddrs list \<Rightarrow> sockunion option \<Rightarrow> fault + sockunion option" where
  "find_sdl name [] sdlp = Inr sdlp"
| "find_sdl name (ifa # rest) sdlp =
     (case ifa_addr ifa of
        None \<Rightarrow> Inl (Undefined ''null ifa_addr'')
      | Some sa \<Rightarrow>
          if uint (sa_family sa) \<noteq> AF_LINK then find_sdl name rest sdlp
          else
            (case c_str name of
               None \<Rightarrow> Inl (Undefined ''strcmp outside tun_if_name'')
             | Some n \<Rightarrow>
                 if n \<noteq> ifa_name ifa then find_sdl name rest sdlp
                 else find_sdl name rest (Some sa)))"

text \<open>
  Lines 315-332.  The \<open>memcpy\<close> of line 327 reads \<open>sdlp->sdl_len\<close> before line 329
  asks whether \<open>sdlp\<close> is null.
\<close>

definition route_gateway :: "kernel \<Rightarrow> sockunion \<Rightarrow> sockunion io" where
  "route_gateway k gate0 =
     bnd (sys_getifaddrs k) (\<lambda>r.
     case r of
       None \<Rightarrow> fail (Exit ''cannot get ifaddrs.'' [])
     | Some ifap \<Rightarrow>
         bnd (\<lambda>w. (case find_sdl (tun_if_name w) ifap None of
                      Inl e \<Rightarrow> fail e
                    | Inr sdlp \<Rightarrow> ret sdlp) w) (\<lambda>sdlp.
         bnd (case sdlp of
                None \<Rightarrow> fail (Undefined ''sdlp->sdl_len with null sdlp'')
              | Some sdl \<Rightarrow>
                  if length (sockunion_bytes sdl) < unat (sa_len sdl)
                  then fail (Undefined ''read outside *sdlp'')
                  else defined ''write outside so_gate''
                         (memcpy_so gate0 0 (take (unat (sa_len sdl)) (sockunion_bytes sdl)))) (\<lambda>gate.
         bnd (emit Sys_freeifaddrs) (\<lambda>_.
         bnd (\<lambda>w. (case sdlp of
                      None \<Rightarrow> fail (Exit ''cannot find a link-layer address of %s.''
                                       [shown (tun_if_name w)])
                    | Some _ \<Rightarrow> ret ()) w) (\<lambda>_.
         ret gate)))))"

text \<open>
  \<open>SA_SIZE\<close> of net/route.h rounds \<open>sa_len\<close> up to a multiple of \<open>sizeof(long)\<close>, and
  \<open>NEXTADDR(w, u)\<close> copies that many bytes of the union \<open>u\<close> to \<open>cp\<close> and advances
  \<open>cp\<close>, when \<open>rtm_addrs\<close> has the bit \<open>w\<close>.  \<open>cp\<close> is the offset in \<open>m_space\<close>.
\<close>

definition SA_SIZE :: "sockunion \<Rightarrow> nat" where
  "SA_SIZE so =
     (if sa_len so = 0 then sizeof_long
      else 1 + nat ((uint (sa_len so) - 1) OR (int sizeof_long - 1)))"

definition NEXTADDR :: "int \<Rightarrow> int \<Rightarrow> sockunion \<Rightarrow> byte list \<times> nat \<Rightarrow> (byte list \<times> nat) option" where
  "NEXTADDR addrs w u sp =
     (case sp of (space, cp) \<Rightarrow>
        if addrs AND w \<noteq> 0 then
          (let l = SA_SIZE u in
           if length (sockunion_bytes u) < l \<or> length space < cp + l then None
           else Some (take cp space @ take l (sockunion_bytes u) @ drop (cp + l) space, cp + l))
        else Some (space, cp))"

text \<open>\<open>++seq\<close> on the \<open>static int seq\<close>; the increment of INT_MAX is undefined.\<close>

definition next_seq :: "int io" where
  "next_seq w =
     (if seq w = INT_MAX then fail (Undefined ''signed overflow of seq'') w
      else ret (seq w + 1) (w\<lparr>seq := seq w + 1\<rparr>))"

text \<open>Lines 334-368: the message, the routing socket, the write.\<close>

definition route_send :: "kernel \<Rightarrow> int \<Rightarrow> int \<Rightarrow> sockunion \<Rightarrow> sockunion \<Rightarrow> sockunion \<Rightarrow> int io" where
  "route_send k addrs flags dst gate msk =
     bnd next_seq (\<lambda>s.
     bnd (defined ''memmove outside so_dst or m_space''
            (NEXTADDR addrs RTA_DST dst (replicate sizeof_m_space 0, 0))) (\<lambda>sp1.
     bnd (defined ''memmove outside so_gate or m_space'' (NEXTADDR addrs RTA_GATEWAY gate sp1)) (\<lambda>sp2.
     bnd (defined ''memmove outside so_mask or m_space'' (NEXTADDR addrs RTA_NETMASK msk sp2)) (\<lambda>sp3.
     case sp3 of (space, cp) \<Rightarrow>
       (let l = int (sizeof_rt_msghdr + cp);
            m_rtmsg = \<lparr>m_rtm = \<lparr>rtm_msglen = l, rtm_version = RTM_VERSION, rtm_type = RTM_ADD,
                                 rtm_flags = flags, rtm_addrs = addrs, rtm_seq = s\<rparr>,
                       m_space = space\<rparr>
        in
          bnd (sys_socket k Route) (\<lambda>route_fd.
          if route_fd = -1 then fail (Exit ''failed to open a routing socket.'' [])
          else
            bnd (sys_write k route_fd m_rtmsg l) (\<lambda>write_len.
            if write_len = -1 then fail (Exit ''failed to install route information.'' [])
            else bnd (sys_close route_fd) (\<lambda>_. ret 0))))))))"

text \<open>
  \<open>tun_route_add(af, addr, prefix_len)\<close>.  \<open>addr\<close> is the caller's buffer, \<open>None\<close> when
  the pointer is null; the function is given no length.  On Linux the body is a stub.
\<close>

definition tun_route_add :: "platform \<Rightarrow> kernel \<Rightarrow> locals \<Rightarrow> int \<Rightarrow> byte list option \<Rightarrow> int \<Rightarrow> int io" where
  "tun_route_add pf k lv af addr prefix_len =
     (case addr of
        None \<Rightarrow> fail (AssertFail ''addr != NULL'')
      | Some a \<Rightarrow>
          if \<not> prefix_len \<ge> 0 then fail (AssertFail ''prefix_len >= 0'')
          else
            (case pf of
               Linux \<Rightarrow>
                 bnd (emit (Warnx ''built-in route manipulation is not supported yet.'' [])) (\<lambda>_.
                 ret 0)
             | BSD \<Rightarrow>
                 (case route_sockaddrs (so_dst lv) (so_mask lv) af a prefix_len of
                    Inl e \<Rightarrow> fail e
                  | Inr None \<Rightarrow>
                      bnd (emit (Warnx ''unsupported address family %d'' [I af])) (\<lambda>_.
                      ret (-1))
                  | Inr (Some (addrs, flags, dst, msk)) \<Rightarrow>
                      bnd (route_gateway k (so_gate lv)) (\<lambda>gate.
                      route_send k (addrs OR RTA_GATEWAY) flags dst gate msk))))"

text \<open>
  One process making one call after the other.  Each call has its own kernel answers, its
  own stack content and its arguments.  A fault ends the process; the results of the
  calls that returned are collected.
\<close>

record route_call =
  rc_kernel :: kernel
  rc_locals :: locals
  rc_af :: int
  rc_addr :: "byte list option"
  rc_prefix_len :: int

fun route_adds :: "platform \<Rightarrow> route_call list \<Rightarrow> int list io" where
  "route_adds pf [] = ret []"
| "route_adds pf (c # cs) =
     bnd (tun_route_add pf (rc_kernel c) (rc_locals c) (rc_af c) (rc_addr c) (rc_prefix_len c)) (\<lambda>r.
     bnd (route_adds pf cs) (\<lambda>rs.
     ret (r # rs)))"

text \<open>The routing messages written, in order, and their sequence numbers.\<close>

fun written :: "event list \<Rightarrow> rt_msg list" where
  "written [] = []"
| "written (Sys_write fd m l r # es) = m # written es"
| "written (e # es) = written es"

definition seqs :: "world \<Rightarrow> int list" where
  "seqs w = map (\<lambda>m. rtm_seq (m_rtm m)) (written (trace w))"

text \<open>Stack content for the runs below: three unions of 56 bytes, filled with 0xAA.\<close>

definition demo_locals :: locals where
  "demo_locals =
     \<lparr>so_dst = \<lparr>sa_len = 0xAA, sa_family = 0xAA, sa_data = replicate 54 0xAA\<rparr>,
      so_gate = \<lparr>sa_len = 0xAA, sa_family = 0xAA, sa_data = replicate 54 0xAA\<rparr>,
      so_mask = \<lparr>sa_len = 0xAA, sa_family = 0xAA, sa_data = replicate 54 0xAA\<rparr>\<rparr>"

text \<open>A call to run: the route 10.1.2.0/24 on the kernel and stack content above.\<close>

definition demo_call :: route_call where
  "demo_call = \<lparr>rc_kernel = demo_kernel, rc_locals = demo_locals, rc_af = AF_INET,
                 rc_addr = Some [10, 1, 2, 0], rc_prefix_len = 24\<rparr>"
section \<open>Properties of the codec\<close>

lemma ntohs_htons: "ntohs (htons x) = x"
  unfolding ntohs_def htons_def
  by (simp, rule bit_word_eqI) (auto simp: bit_simps)

lemma ntohl_htonl: "ntohl (htonl x) = x"
  unfolding ntohl_def htonl_def
  apply simp
  apply (rule bit_word_eqI)
  apply (simp add: bit_simps)
  subgoal for n
    by (cases "n < 8"; cases "n < 16"; cases "n < 24"; simp; linarith) 
  done

lemma length_htons: "length (htons x) = 2"
  by (simp add: htons_def)

lemma length_htonl: "length (htonl x) = 4"
  by (simp add: htonl_def)

text \<open>
  C2.  Round trip of the codec: on a buffer of at least four bytes, \<open>tun_set_af\<close> with
  AF_INET or AF_INET6 succeeds (returns 0, no diagnostic, same length), and
  \<open>tun_get_af\<close> on the buffer it leaves returns the same family, with struct tun_pi
  (Linux) and with the big-endian family word (BSD).
\<close>

theorem tun_af_roundtrip:
  assumes "4 \<le> length buf" and "uint af = AF_INET \<or> uint af = AF_INET6 pf"
  shows "\<exists>buf'. tun_set_af pf buf af = Inr (0, buf', []) \<and> length buf' = length buf
           \<and> tun_get_af pf buf' = Inr (af, [])"
proof (cases pf)
  case Linux
  from assms(2) show ?thesis
  proof
    assume a: "uint af = AF_INET"
    then have "word_of_int AF_INET = af" by (metis word_of_int_uint)
    with a assms(1) Linux show ?thesis
      by (simp add: tun_set_af_def tun_get_af_def ntohs_htons length_htons ETH_P_IP_def ETH_P_IPV6_def)
  next
    assume a: "uint af = AF_INET6 pf"
    then have "word_of_int (AF_INET6 Linux) = af" using Linux by (metis word_of_int_uint)
    with a assms(1) Linux show ?thesis
      by (simp add: tun_set_af_def tun_get_af_def ntohs_htons length_htons ETH_P_IP_def ETH_P_IPV6_def AF_INET_def)
  qed
next
  case BSD
  with assms(1) show ?thesis
    by (simp add: tun_set_af_def tun_get_af_def ntohl_htonl length_htonl)
qed

text \<open>C2 at AF_INET6 on Linux and at AF_INET on BSD.\<close>

theorem tun_af_roundtrip_witness:
  "tun_get_af Linux [0, 0, 0x86, 0xDD, 0x60] = Inr (10, [])
   \<and> tun_set_af Linux [9, 9, 9, 9, 0x60] 10 = Inr (0, [0, 0, 0x86, 0xDD, 0x60], [])
   \<and> tun_set_af BSD [9, 9, 9, 9, 0x45] 2 = Inr (0, [0, 0, 0, 2, 0x45], [])
   \<and> tun_get_af BSD [0, 0, 0, 2, 0x45] = Inr (2, [])"
proof -
  have l: "tun_set_af Linux [9, 9, 9, 9, 0x60] 10 = Inr (0, [0, 0, 0x86, 0xDD, 0x60], [])"
    by (simp add: tun_set_af_def AF_INET_def htons_def ETH_P_IPV6_def)
  have b: "tun_set_af BSD [9, 9, 9, 9, 0x45] 2 = Inr (0, [0, 0, 0, 2, 0x45], [])"
    by (simp add: tun_set_af_def htonl_def)
  from l b tun_af_roundtrip [of "[9, 9, 9, 9, 0x60]" 10 Linux]
    tun_af_roundtrip [of "[9, 9, 9, 9, 0x45]" 2 BSD]
  show ?thesis by (simp add: AF_INET_def)
qed

text \<open>
  C3 fails without \<open>__linux__\<close>: family 7 is neither AF_INET nor AF_INET6, the buffer
  has four bytes, and \<open>tun_set_af\<close> returns 0 after writing 00 00 00 07.
\<close>

theorem tun_set_af_bsd_accepts_any_counterexample:
  "uint (7 :: u32) \<noteq> AF_INET \<and> uint (7 :: u32) \<noteq> AF_INET6 BSD \<and> 4 \<le> length [0, 0, 0, 0 :: byte]
   \<and> tun_set_af BSD [0, 0, 0, 0] 7 = Inr (0, [0, 0, 0, 7], [])"
  by (simp add: tun_set_af_def AF_INET_def htonl_def)

text \<open>
  C3, as the code has it.  For a family other than AF_INET and AF_INET6 and a buffer of at
  least four bytes: on Linux \<open>tun_set_af\<close> prints "unsupported address family" and
  returns -1; without \<open>__linux__\<close> there is no check, it writes the family word in
  network byte order and returns 0.
\<close>

theorem tun_set_af_unsupported:
  assumes "uint af \<noteq> AF_INET" and "uint af \<noteq> AF_INET6 pf" and "4 \<le> length buf"
  shows "tun_set_af pf buf af =
           (case pf of
              Linux \<Rightarrow> Inr (-1, buf, [(''unsupported address family %d'', [I (sint af)])])
            | BSD \<Rightarrow> Inr (0, htonl af @ drop 4 buf, []))"
  using assms by (cases pf) (simp_all add: tun_set_af_def)

text \<open>C3 as amended, at family 7 on both platforms.\<close>

theorem tun_set_af_unsupported_witness:
  "tun_set_af Linux [1, 2, 3, 4] 7 = Inr (-1, [1, 2, 3, 4], [(''unsupported address family %d'', [I 7])])
   \<and> tun_set_af BSD [1, 2, 3, 4, 5] 7 = Inr (0, [0, 0, 0, 7, 5], [])"
  using tun_set_af_unsupported [of 7 Linux "[1, 2, 3, 4]"]
    tun_set_af_unsupported [of 7 BSD "[1, 2, 3, 4, 5]"]
  by (simp add: AF_INET_def htonl_def)

text \<open>
  C4 fails without \<open>__linux__\<close>: the header 00 00 00 07 encodes family 7, neither
  AF_INET nor AF_INET6, and \<open>tun_get_af\<close> returns 7, not the sentinel 255.
\<close>

theorem tun_get_af_bsd_no_sentinel_counterexample:
  "4 \<le> length [0, 0, 0, 7 :: byte] \<and> uint (ntohl [0, 0, 0, 7]) \<noteq> AF_INET
   \<and> uint (ntohl [0, 0, 0, 7]) \<noteq> AF_INET6 BSD
   \<and> tun_get_af BSD [0, 0, 0, 7] = Inr (7, []) \<and> (7 :: u32) \<noteq> 255"
  by (simp add: tun_get_af_def ntohl_def AF_INET_def)

text \<open>
  C4, as the code has it.  On a buffer of at least four bytes \<open>tun_get_af\<close> never
  ends in a fault, on either platform and whatever the header holds.  On Linux the Ether
  type ETH_P_IP gives AF_INET and ETH_P_IPV6 gives AF_INET6, both silently, whatever the
  flags are; any other Ether type gives the sentinel 255 and one warning.  Without
  \<open>__linux__\<close> the result is the big-endian 32-bit word of the header, whatever it is,
  and nothing is printed.
\<close>

theorem tun_get_af_unknown:
  assumes "4 \<le> length buf"
  shows "(\<exists>r. tun_get_af pf buf = Inr r)
         \<and> (uint (ntohs (take 2 (drop 2 buf))) = ETH_P_IP
              \<longrightarrow> tun_get_af Linux buf = Inr (word_of_int AF_INET, []))
         \<and> (uint (ntohs (take 2 (drop 2 buf))) = ETH_P_IPV6
              \<longrightarrow> tun_get_af Linux buf = Inr (word_of_int (AF_INET6 Linux), []))
         \<and> (uint (ntohs (take 2 (drop 2 buf))) \<noteq> ETH_P_IP \<and> uint (ntohs (take 2 (drop 2 buf))) \<noteq> ETH_P_IPV6
              \<longrightarrow> tun_get_af Linux buf =
                    Inr (255, [(''unknown ether frame type %x received.'',
                                [I (uint (ntohs (take 2 (drop 2 buf))))])]))
         \<and> tun_get_af BSD buf = Inr (ntohl (take 4 buf), [])"
proof -
  have "\<exists>r. tun_get_af pf buf = Inr r"
    using assms by (cases pf) (simp_all add: tun_get_af_def Let_def)
  moreover have "ETH_P_IPV6 \<noteq> ETH_P_IP" by (simp add: ETH_P_IP_def ETH_P_IPV6_def)
  ultimately show ?thesis
    using assms by (simp add: tun_get_af_def Let_def)
qed

text \<open>
  C4 as amended: on Linux at Ether type 0x0806, and at ETH_P_IP and ETH_P_IPV6 with flags
  that are not zero; on BSD at family 7.
\<close>

theorem tun_get_af_unknown_witness:
  "tun_get_af Linux [0, 0, 0x08, 0x06] = Inr (255, [(''unknown ether frame type %x received.'', [I 0x0806])])
   \<and> tun_get_af Linux [0xFF, 0xFF, 0x08, 0x00, 0x45] = Inr (2, [])
   \<and> tun_get_af Linux [0x12, 0x34, 0x86, 0xDD, 0x60] = Inr (10, [])
   \<and> tun_get_af BSD [0, 0, 0, 7] = Inr (7, [])"
proof -
  have e: "uint (ntohs (take 2 (drop 2 [0, 0, 0x08, 0x06]))) = 0x0806"
    "uint (ntohs (take 2 (drop 2 [0xFF, 0xFF, 0x08, 0x00, 0x45]))) = ETH_P_IP"
    "uint (ntohs (take 2 (drop 2 [0x12, 0x34, 0x86, 0xDD, 0x60]))) = ETH_P_IPV6"
    "ntohl (take 4 [0, 0, 0, 7]) = 7"
    by (simp_all add: ntohs_def ntohl_def ETH_P_IP_def ETH_P_IPV6_def)
  from tun_get_af_unknown [of "[0, 0, 0x08, 0x06]" Linux]
    tun_get_af_unknown [of "[0xFF, 0xFF, 0x08, 0x00, 0x45]" Linux]
    tun_get_af_unknown [of "[0x12, 0x34, 0x86, 0xDD, 0x60]" Linux]
    tun_get_af_unknown [of "[0, 0, 0, 7]" BSD]
  show ?thesis
    unfolding e by (simp add: ETH_P_IP_def ETH_P_IPV6_def AF_INET_def)
qed

text \<open>
  C10.  On Linux, \<open>tun_set_af\<close> with a family other than AF_INET and AF_INET6 returns
  -1 and leaves every byte of the buffer, header and payload, as it was (for a buffer of
  any length: the buffer is not accessed on this path).
\<close>

theorem tun_set_af_linux_error_keeps_buffer:
  assumes "uint af \<noteq> AF_INET" and "uint af \<noteq> AF_INET6 Linux"
  shows "\<exists>d. tun_set_af Linux buf af = Inr (-1, buf, d)"
  using assms by (simp add: tun_set_af_def)

text \<open>C10 at family 28 (FreeBSD's AF_INET6 number, which Linux does not accept).\<close>

theorem tun_set_af_linux_error_keeps_buffer_witness:
  "\<exists>d. tun_set_af Linux [1, 2, 3, 4, 5, 6] 28 = Inr (-1, [1, 2, 3, 4, 5, 6], d)"
  using tun_set_af_linux_error_keeps_buffer [of 28 "[1, 2, 3, 4, 5, 6]"]
  by (simp add: AF_INET_def)

section \<open>Properties of the netmask derivation\<close>

lemma prefix_split: "0 < (p::int) \<Longrightarrow> drop_bit 3 p = p div 8 \<and> p AND 7 = p mod 8"
proof -
  have "p AND 7 = p AND mask 3" by (simp add: mask_eq_exp_minus_1)
  then show ?thesis by (simp add: drop_bit_eq_div take_bit_eq_mod flip: take_bit_eq_mask)
qed


text \<open>A field of \<open>n\<close> bytes at \<open>off\<close> after the writes of \<open>tun_make_netmask\<close>.\<close>

lemma slice_cleared:
  "off + n \<le> length d \<Longrightarrow> take n (drop off (memset d off 0 n)) = replicate n 0"
  by (simp add: memset_def)

lemma slice_filled:
  "off + n \<le> length d \<Longrightarrow> q \<le> n \<Longrightarrow>
   take n (drop off (memset (memset d off 0 n) off c q)) = replicate q c @ replicate (n - q) 0"
  by (simp add: memset_def min_def)

lemma slice_partial:
  assumes "off + n \<le> length d" and "q < n"
  shows "take n (drop off ((memset (memset d off 0 n) off c q)[off + q := v]))
           = replicate q c @ v # replicate (n - q - 1) 0"
proof -
  from assms(2) obtain k where k: "n - q = Suc k" by (metis Suc_diff_Suc)
  have "memset (memset d off 0 n) off c q
          = take off d @ replicate q c @ replicate (n - q) 0 @ drop (off + n) d"
    using assms by (simp add: memset_def min_def)
  then show ?thesis using assms(1) k by (simp add: list_update_append)
qed

lemma slice_partial0:
  assumes "off + n \<le> length d" and "0 < n"
  shows "take n (drop off ((memset d off 0 n)[off := v])) = v # replicate (n - 1) 0"
proof -
  from assms(2) obtain k where k: "n = Suc k" by (cases n) auto
  show ?thesis using assms(1) unfolding k by (simp add: memset_def list_update_append)
qed

lemma tun_make_netmask_field:
  assumes "0 < p" and "p \<le> 8 * int n" and "off + n \<le> length (sa_data m)" and "0 < n"
    and sw: "(if af = AF_INET then Some (32, sizeof_sockaddr_in, sin_addr_offset)
              else if af = AF_INET6 pf then Some (128, sizeof_sockaddr_in6, sin6_addr_offset)
              else None) = Some (8 * int n, l, off)"
  shows "\<exists>m'. tun_make_netmask pf (Some m) af p = Inr (0, m')
           \<and> take n (drop off (sa_data m')) = spec_netmask n p"
proof -
  note qr = prefix_split [OF assms(1)]
  have q: "nat (p div 8) \<le> n" using assms(1,2) by linarith
  have r: "nat (p div 8) < n" if "p mod 8 \<noteq> 0"
  proof -
    have "8 * (p div 8) + p mod 8 = p" by simp
    moreover have "0 < p mod 8" using that by (simp add: less_le)
    ultimately have "8 * (p div 8) < 8 * int n" using assms(2) by linarith
    moreover have "0 \<le> p div 8" using assms(1) by simp
    ultimately show ?thesis by linarith
  qed
  have r0: "(0 < p mod 8) = (p mod 8 \<noteq> 0)" by (simp add: less_le)
  have q0: "\<not> 0 < p div 8 \<Longrightarrow> nat (p div 8) = 0" by simp
  have n8: "nat (8 * int n div 8) = n" by simp
  show ?thesis
    unfolding tun_make_netmask_def sw
    using assms(1-4) q r
    by (cases pf)
      (auto simp: Let_def qr r0 n8 spec_netmask_def slice_cleared slice_filled slice_partial
         slice_partial0)
qed


text \<open>
  C1 fails at prefix length 0: \<open>tun_make_netmask\<close> starts with
  \<open>assert(prefix_len > 0)\<close>, so the call aborts and no mask is produced, for AF_INET as
  for AF_INET6.
\<close>

theorem tun_make_netmask_zero_counterexample:
  "tun_make_netmask BSD (Some \<lparr>sa_len = 0, sa_family = 0, sa_data = replicate 54 0\<rparr>) AF_INET 0
     = Inl (AssertFail ''prefix_len > 0'')
   \<and> tun_make_netmask BSD (Some \<lparr>sa_len = 0, sa_family = 0, sa_data = replicate 54 0\<rparr>) (AF_INET6 BSD) 0
     = Inl (AssertFail ''prefix_len > 0'')"
  by (simp add: tun_make_netmask_def)

text \<open>
  C1, as the code has it.  For AF_INET and a prefix length \<open>0 < p \<le> 32\<close>, and for
  AF_INET6 and \<open>0 < p \<le> 128\<close>, \<open>tun_make_netmask\<close> returns 0 and leaves in the address
  field (\<open>sin_addr\<close>, \<open>sin6_addr\<close>) the bytes the specification describes: \<open>p / 8\<close>
  bytes 0xFF, then \<open>(0xFF00 >> (p % 8)) & 0xFF\<close> when \<open>p % 8\<close> is not zero, then zeros;
  whatever the union held before, on both platforms.
\<close>

theorem tun_make_netmask_bytes:
  assumes "0 < p" and "22 \<le> length (sa_data m)"
  shows "(p \<le> 32 \<longrightarrow>
            (\<exists>m'. tun_make_netmask pf (Some m) AF_INET p = Inr (0, m')
                  \<and> sin_addr m' = spec_netmask 4 p))
       \<and> (p \<le> 128 \<longrightarrow>
            (\<exists>m'. tun_make_netmask pf (Some m) (AF_INET6 pf) p = Inr (0, m')
                  \<and> sin6_addr m' = spec_netmask 16 p))"
proof (intro conjI impI)
  assume "p \<le> 32"
  then show "\<exists>m'. tun_make_netmask pf (Some m) AF_INET p = Inr (0, m') \<and> sin_addr m' = spec_netmask 4 p"
    unfolding sin_addr_def
    using assms tun_make_netmask_field [of p 4 sin_addr_offset m AF_INET pf sizeof_sockaddr_in]
    by (simp add: sin_addr_offset_def)
next
  have six: "AF_INET6 pf \<noteq> AF_INET" by (cases pf) (simp_all add: AF_INET_def)
  assume "p \<le> 128"
  then show "\<exists>m'. tun_make_netmask pf (Some m) (AF_INET6 pf) p = Inr (0, m')
                 \<and> sin6_addr m' = spec_netmask 16 p"
    unfolding sin6_addr_def
    using assms six
      tun_make_netmask_field [of p 16 sin6_addr_offset m "AF_INET6 pf" pf sizeof_sockaddr_in6]
    by (simp add: sin6_addr_offset_def)
qed

text \<open>
  C1 at the prefix lengths the specification names: /24 and /32 for AF_INET, /64 and /128
  for AF_INET6, on a union filled with 0x55 beforehand.
\<close>

theorem tun_make_netmask_bytes_witness:
  "(\<exists>m'. tun_make_netmask BSD (Some \<lparr>sa_len = 0, sa_family = 0, sa_data = replicate 54 0x55\<rparr>) AF_INET 24
            = Inr (0, m') \<and> sin_addr m' = [0xFF, 0xFF, 0xFF, 0x00])
   \<and> (\<exists>m'. tun_make_netmask Linux (Some \<lparr>sa_len = 0, sa_family = 0, sa_data = replicate 26 0x55\<rparr>) AF_INET 32
            = Inr (0, m') \<and> sin_addr m' = [0xFF, 0xFF, 0xFF, 0xFF])
   \<and> (\<exists>m'. tun_make_netmask BSD (Some \<lparr>sa_len = 0, sa_family = 0, sa_data = replicate 54 0x55\<rparr>) (AF_INET6 BSD) 64
            = Inr (0, m') \<and> sin6_addr m' = replicate 8 0xFF @ replicate 8 0x00)
   \<and> (\<exists>m'. tun_make_netmask Linux (Some \<lparr>sa_len = 0, sa_family = 0, sa_data = replicate 26 0x55\<rparr>) (AF_INET6 Linux) 128
            = Inr (0, m') \<and> sin6_addr m' = replicate 16 0xFF)"
proof -
  have "spec_netmask 4 24 = [0xFF, 0xFF, 0xFF, 0x00]"
    and "spec_netmask 4 32 = [0xFF, 0xFF, 0xFF, 0xFF]"
    and "spec_netmask 16 64 = replicate 8 0xFF @ replicate 8 0x00"
    and "spec_netmask 16 128 = replicate 16 0xFF"
    by (simp_all add: spec_netmask_def numeral_eq_Suc)
  then show ?thesis
    using tun_make_netmask_bytes [of 24 "\<lparr>sa_len = 0, sa_family = 0, sa_data = replicate 54 0x55\<rparr>" BSD]
      tun_make_netmask_bytes [of 32 "\<lparr>sa_len = 0, sa_family = 0, sa_data = replicate 26 0x55\<rparr>" Linux]
      tun_make_netmask_bytes [of 64 "\<lparr>sa_len = 0, sa_family = 0, sa_data = replicate 54 0x55\<rparr>" BSD]
      tun_make_netmask_bytes [of 128 "\<lparr>sa_len = 0, sa_family = 0, sa_data = replicate 26 0x55\<rparr>" Linux]
    by simp
qed

section \<open>Properties of the interface creation\<close>

lemmas io_defs = bnd_def ret_def fail_def emit_def defined_def load_def store_def
  sys_socket_def sys_open_def sys_ioctl_ifreq_def sys_ioctl_int_def sys_close_def
  sys_getifaddrs_def sys_write_def

text \<open>
  Both creation branches read the requested name through the pointer, send it to the
  kernel and copy the name the kernel answers back through the pointer.
\<close>

lemma tun_alloc_linux_name:
  assumes "tun_alloc_linux k p w = (Inr fd, w1)"
  shows "\<exists>old nm back new.
           deref w p = Some old \<and> strncpy_chars IFNAMSIZ old = Some nm
         \<and> k_ioctl_ifreq k (k_open k ''/dev/net/tun'') TUNSETIFF \<lparr>ifr_name = nm, ifr_flags = IFF_TUN\<rparr>
             = Some back
         \<and> strncpy old (ifr_name back) IFNAMSIZ = Some new
         \<and> deref w1 p = Some new
         \<and> (p \<noteq> Exported \<longrightarrow> tun_if_name w1 = tun_if_name w)"
  using assms unfolding tun_alloc_linux_def io_defs
  by (auto simp: deref_def split: if_splits option.splits sum.splits prod.splits ptr.splits)

lemma tun_alloc_bsd_name:
  assumes "tun_alloc_bsd k g udp_fd p w = (Inr fd, w1)"
  shows "\<exists>old nm back new.
           deref w p = Some old \<and> strncpy_chars IFNAMSIZ old = Some nm
         \<and> k_ioctl_ifreq k udp_fd SIOCIFCREATE2 \<lparr>ifr_name = nm, ifr_flags = 0\<rparr> = Some back
         \<and> strncpy old (ifr_name back) IFNAMSIZ = Some new
         \<and> deref w1 p = Some new
         \<and> (p \<noteq> Exported \<longrightarrow> tun_if_name w1 = tun_if_name w)"
  using assms unfolding tun_alloc_bsd_def io_defs
  by (auto simp: deref_def split: if_splits option.splits sum.splits prod.splits ptr.splits)

lemma length_strncpy_chars: "strncpy_chars n src = Some cs \<Longrightarrow> length cs = n"
proof -
  have "length (takeWhile (\<lambda>c. c \<noteq> NUL) (take n src)) \<le> n"
    by (rule order_trans [OF length_takeWhile_le]) simp
  then show "strncpy_chars n src = Some cs \<Longrightarrow> length cs = n"
    by (auto simp: strncpy_chars_def Let_def split: if_splits)
qed

lemma strncpy_take:
  "strncpy dst src n = Some new \<Longrightarrow> strncpy_chars n src = Some (take n new)"
  by (auto simp: strncpy_def length_strncpy_chars split: option.splits if_splits)

lemma deref_trace: "deref (w\<lparr>trace := t\<rparr>) p = deref w p"
  by (simp add: deref_def split: ptr.splits)

text \<open>
  C8 fails when the caller passes an array of its own: \<open>tun_alloc\<close> succeeds, the kernel
  names the interface tun0, the caller's array holds tun0, and the exported array
  \<open>tun_if_name\<close> is as it was at process start, all NUL.
\<close>

theorem tun_alloc_exported_name_counterexample:
  "fst (tun_alloc Linux demo_kernel [] (Other 0) (world0 (own_array (name16 ''tun646'')))) = Inr 4
   \<and> heap (snd (tun_alloc Linux demo_kernel [] (Other 0) (world0 (own_array (name16 ''tun646''))))) 0
       = Some (name16 ''tun0'')
   \<and> tun_if_name (snd (tun_alloc Linux demo_kernel [] (Other 0) (world0 (own_array (name16 ''tun646'')))))
       = replicate IFNAMSIZ NUL
   \<and> replicate IFNAMSIZ NUL \<noteq> name16 ''tun0''"
proof -
  have "replicate IFNAMSIZ NUL \<noteq> name16 ''tun0''"
    by (simp add: name16_def IFNAMSIZ_def NUL_def numeral_eq_Suc)
  then show ?thesis
    by (simp add: tun_alloc_def tun_alloc_linux_def io_defs demo_kernel_def demo_world_def
        no_arrays_def own_array_def world0_def name16_def
        deref_def strncpy_def strncpy_chars_def IFNAMSIZ_def NUL_def)
qed

text \<open>
  C8, as the code has it.  The parameter of \<open>tun_alloc\<close> hides the exported array, so the
  name goes where the caller's pointer points.  After a successful \<open>tun_alloc(p)\<close> the
  array at \<open>p\<close> begins with the IFNAMSIZ chars that \<open>strncpy\<close> makes of the name the
  kernel answered to the creation request (TUNSETIFF on the device on Linux, SIOCIFCREATE2
  on the control socket otherwise); the request carried the name the array held before.
  The exported array holds that name when \<open>p\<close> points to it, and is unchanged when not.
\<close>

theorem tun_alloc_name:
  assumes "tun_alloc pf k g p w = (Inr fd, w')"
  shows "\<exists>old nm back new.
           deref w p = Some old \<and> strncpy_chars IFNAMSIZ old = Some nm
         \<and> (case pf of
               Linux \<Rightarrow> k_ioctl_ifreq k (k_open k ''/dev/net/tun'') TUNSETIFF
                          \<lparr>ifr_name = nm, ifr_flags = IFF_TUN\<rparr>
             | BSD \<Rightarrow> k_ioctl_ifreq k (k_socket k Control) SIOCIFCREATE2
                          \<lparr>ifr_name = nm, ifr_flags = 0\<rparr>) = Some back
         \<and> deref w' p = Some new
         \<and> strncpy_chars IFNAMSIZ (ifr_name back) = Some (take IFNAMSIZ new)
         \<and> (p = Exported \<longrightarrow> tun_if_name w' = new)
         \<and> (p \<noteq> Exported \<longrightarrow> tun_if_name w' = tun_if_name w)"
proof -
  from assms obtain w0 w1 tun_fd where
    s: "sys_socket k Control w = (Inr (k_socket k Control), w0)"
      "deref w0 p = deref w p" "tun_if_name w0 = tun_if_name w"
    and c: "(case pf of Linux \<Rightarrow> tun_alloc_linux k p
                      | BSD \<Rightarrow> tun_alloc_bsd k g (k_socket k Control) p) w0 = (Inr tun_fd, w1)"
    and t: "deref w' p = deref w1 p" "tun_if_name w' = tun_if_name w1"
    unfolding tun_alloc_def io_defs
    by (auto simp: deref_trace split: if_splits option.splits sum.splits prod.splits)
  from c obtain old nm ans new where
    n: "deref w0 p = Some old" "strncpy_chars IFNAMSIZ old = Some nm"
      "(case pf of
          Linux \<Rightarrow> k_ioctl_ifreq k (k_open k ''/dev/net/tun'') TUNSETIFF
                     \<lparr>ifr_name = nm, ifr_flags = IFF_TUN\<rparr>
        | BSD \<Rightarrow> k_ioctl_ifreq k (k_socket k Control) SIOCIFCREATE2
                     \<lparr>ifr_name = nm, ifr_flags = 0\<rparr>) = Some ans"
      "strncpy old (ifr_name ans) IFNAMSIZ = Some new"
      "deref w1 p = Some new" "p \<noteq> Exported \<longrightarrow> tun_if_name w1 = tun_if_name w0"
    by (cases pf) (auto dest!: tun_alloc_linux_name tun_alloc_bsd_name)
  from n(5) have e: "p = Exported \<longrightarrow> tun_if_name w1 = new" by (auto simp: deref_def)
  have "deref w p = Some old" using s(2) n(1) by simp
  moreover have "deref w' p = Some new" using t(1) n(5) by simp
  moreover have "strncpy_chars IFNAMSIZ (ifr_name ans) = Some (take IFNAMSIZ new)"
    by (rule strncpy_take [OF n(4)])
  moreover have "p = Exported \<longrightarrow> tun_if_name w' = new" using e t(2) by simp
  moreover have "p \<noteq> Exported \<longrightarrow> tun_if_name w' = tun_if_name w" using n(6) s(3) t(2) by simp
  ultimately show ?thesis using n(2,3) by blast
qed

text \<open>
  C8 as amended, on Linux and on BSD, with the pointer to the exported array: it held
  tun646, the kernel answered tun0, and it holds tun0.
\<close>

theorem tun_alloc_name_witness:
  "take IFNAMSIZ (tun_if_name (snd (tun_alloc Linux demo_kernel []
       Exported (demo_world ''tun646'')))) = name16 ''tun0''
   \<and> take IFNAMSIZ (tun_if_name (snd (tun_alloc BSD demo_kernel (replicate MAXPATHLEN NUL)
       Exported (demo_world ''tun646'')))) = name16 ''tun0''"
proof -
  let ?w = "demo_world ''tun646''"
  have nm: "strncpy_chars IFNAMSIZ (name16 ''tun0'') = Some (name16 ''tun0'')"
    by (simp add: strncpy_chars_def name16_def IFNAMSIZ_def NUL_def)
  have "fst (tun_alloc Linux demo_kernel [] Exported ?w) = Inr 4"
    by (simp add: tun_alloc_def tun_alloc_linux_def io_defs demo_kernel_def demo_world_def
        no_arrays_def own_array_def world0_def name16_def
        deref_def strncpy_def strncpy_chars_def IFNAMSIZ_def NUL_def)
  then have l: "tun_alloc Linux demo_kernel [] Exported ?w
                  = (Inr 4, snd (tun_alloc Linux demo_kernel [] Exported ?w))"
    by (metis prod.collapse)
  have "fst (tun_alloc BSD demo_kernel (replicate MAXPATHLEN NUL) Exported ?w) = Inr 4"
    by (simp add: tun_alloc_def tun_alloc_bsd_def io_defs demo_kernel_def demo_world_def
        no_arrays_def own_array_def world0_def name16_def
        deref_def strncpy_def strncpy_chars_def strcat_def c_str_def IFNAMSIZ_def MAXPATHLEN_def
        NUL_def)
  then have b: "tun_alloc BSD demo_kernel (replicate MAXPATHLEN NUL) Exported ?w
                  = (Inr 4, snd (tun_alloc BSD demo_kernel (replicate MAXPATHLEN NUL) Exported ?w))"
    by (metis prod.collapse)
  from tun_alloc_name [OF l] tun_alloc_name [OF b] show ?thesis
    by (auto simp: demo_kernel_def nm)
qed

text \<open>
  C7 fails when the stack under \<open>tun_dev_name\<close> does not begin with a NUL.  The array
  is declared without initialiser and both \<open>strcat\<close> calls append to what it holds: with an
  \<open>x\<close> left there, the kernel answering tun0, the device the call opens is x/dev/tun0.
\<close>

theorem tun_alloc_bsd_device_path:
  "trace (snd (tun_alloc BSD demo_kernel (CHR ''x'' # replicate 1023 NUL) Exported
                 (demo_world ''tun646'')))
   = [Sys_socket Control 3,
      Sys_ioctl_ifreq 3 SIOCIFCREATE2 \<lparr>ifr_name = name16 ''tun646'', ifr_flags = 0\<rparr>
        (Some \<lparr>ifr_name = name16 ''tun0'', ifr_flags = 0\<rparr>),
      Sys_open ''x/dev/tun0'' 4,
      Sys_ioctl_int 4 TUNSIFMODE IFF_POINTOPOINT (Some IFF_POINTOPOINT),
      Sys_ioctl_int 4 TUNSIFHEAD 1 (Some 1),
      Sys_ioctl_ifreq 3 SIOCSIFFLAGS \<lparr>ifr_name = name16 ''tun0'', ifr_flags = IFF_UP\<rparr>
        (Some \<lparr>ifr_name = name16 ''tun0'', ifr_flags = IFF_UP\<rparr>),
      Sys_close 3]"
  by (simp add: tun_alloc_def tun_alloc_bsd_def io_defs demo_kernel_def demo_world_def
        no_arrays_def own_array_def world0_def name16_def
      deref_def strncpy_def strncpy_chars_def strcat_def c_str_def IFNAMSIZ_def NUL_def)

text \<open>What \<open>strcat\<close> leaves is the one string after the other.\<close>

lemma c_str_strcat:
  assumes "strcat dst src = Some d"
  shows "\<exists>a b. c_str dst = Some a \<and> c_str src = Some b \<and> c_str d = Some (a @ b)"
proof -
  from assms obtain a b where ab: "c_str dst = Some a" "c_str src = Some b"
    and d: "d = a @ b @ [NUL] @ drop (length a + length b + 1) dst"
    by (auto simp: strcat_def split: option.splits if_splits)
  from ab have "\<And>x. x \<in> set a \<Longrightarrow> x \<noteq> NUL" "\<And>x. x \<in> set b \<Longrightarrow> x \<noteq> NUL"
    by (auto simp: c_str_def split: if_splits dest: set_takeWhileD)
  then have "takeWhile (\<lambda>c. c \<noteq> NUL) d = a @ b"
    unfolding d by simp
  then have "c_str d = Some (a @ b)" unfolding c_str_def d by simp
  with ab show ?thesis by blast
qed

text \<open>
  In general the device opened without \<open>__linux__\<close> is named by what \<open>tun_dev_name\<close>
  held, then /dev/, then the name the kernel answered: /dev/ and the name alone only when
  the array happened to begin with a NUL.
\<close>

lemma tun_alloc_bsd_opens:
  assumes "tun_alloc_bsd k g udp_fd p w = (Inr fd, w1)"
  shows "\<exists>junk nm ans name.
           c_str g = Some junk
         \<and> k_ioctl_ifreq k udp_fd SIOCIFCREATE2 \<lparr>ifr_name = nm, ifr_flags = 0\<rparr> = Some ans
         \<and> c_str (ifr_name ans) = Some name
         \<and> Sys_open (junk @ ''/dev/'' @ name) fd \<in> set (trace w1)"
proof -
  have lit: "c_str [CHR ''/'', CHR ''d'', CHR ''e'', CHR ''v'', CHR ''/'', NUL] = Some ''/dev/''"
    by (simp add: c_str_def NUL_def)
  show ?thesis
    using assms unfolding tun_alloc_bsd_def io_defs
    by (fastforce simp: lit split: if_splits option.splits sum.splits prod.splits ptr.splits
        dest!: c_str_strcat)
qed

section \<open>Properties of the route injection\<close>

lemma written_append: "written (xs @ ys) = written xs @ written ys"
  by (induction xs rule: written.induct) simp_all

lemma seqs_trace_append:
  "seqs (w\<lparr>trace := trace w @ es\<rparr>) = seqs w @ map (\<lambda>m. rtm_seq (m_rtm m)) (written es)"
  by (simp add: seqs_def written_append)

text \<open>
  Resolving the gateway leaves the counter alone and writes nothing to a routing socket.
\<close>

lemma route_gateway_quiet:
  assumes "route_gateway k g w = (r, w')"
  shows "seq w' = seq w \<and> seqs w' = seqs w"
  using assms unfolding route_gateway_def io_defs
  by (auto simp: seqs_def written_append split: if_splits option.splits sum.splits prod.splits)

text \<open>
  Sending increments the counter first.  When the call returns, exactly one message has
  been written, with the new value; when it ends in a fault, at most that one.
\<close>

lemma route_send_seq:
  assumes "route_send k addrs flags dst gate msk w = (r, w')"
  shows "(case r of
            Inr _ \<Rightarrow> seq w' = seq w + 1 \<and> seqs w' = seqs w @ [seq w + 1]
          | Inl _ \<Rightarrow> seqs w' = seqs w \<or> seqs w' = seqs w @ [seq w + 1])"
  using assms unfolding route_send_def next_seq_def io_defs
  by (auto simp: seqs_def written_append Let_def
      split: if_splits option.splits sum.splits prod.splits)

lemma tun_route_add_seq:
  assumes "tun_route_add pf k lv af addr p w = (r, w')"
  shows "(case r of
            Inr _ \<Rightarrow> (seq w' = seq w \<and> seqs w' = seqs w)
                     \<or> (seq w' = seq w + 1 \<and> seqs w' = seqs w @ [seq w + 1])
          | Inl _ \<Rightarrow> seqs w' = seqs w \<or> seqs w' = seqs w @ [seq w + 1])"
proof (cases "\<exists>a addrs flags dst msk. pf = BSD \<and> addr = Some a \<and> 0 \<le> p
                \<and> route_sockaddrs (so_dst lv) (so_mask lv) af a p = Inr (Some (addrs, flags, dst, msk))")
  case False
  with assms have "seq w' = seq w \<and> seqs w' = seqs w"
    unfolding tun_route_add_def io_defs
    by (auto simp: seqs_def written_append
        split: if_splits option.splits sum.splits prod.splits platform.splits)
  then show ?thesis by (cases r) simp_all
next
  case True
  then obtain a addrs flags dst msk where
    c: "pf = BSD" "addr = Some a" "0 \<le> p"
      "route_sockaddrs (so_dst lv) (so_mask lv) af a p = Inr (Some (addrs, flags, dst, msk))"
    by blast
  from assms c have
    e: "bnd (route_gateway k (so_gate lv))
          (\<lambda>gate. route_send k (addrs OR RTA_GATEWAY) flags dst gate msk) w = (r, w')"
    by (simp add: tun_route_add_def)
  obtain rg wg where g: "route_gateway k (so_gate lv) w = (rg, wg)" by (cases "route_gateway k (so_gate lv) w")
  note q = route_gateway_quiet [OF g]
  show ?thesis
  proof (cases rg)
    case (Inl x)
    with e g have "r = Inl x" "w' = wg" by (simp_all add: bnd_def)
    with q show ?thesis by simp
  next
    case (Inr gate)
    with e g have "route_send k (addrs OR RTA_GATEWAY) flags dst gate msk wg = (r, w')"
      by (simp add: bnd_def)
    from route_send_seq [OF this] q show ?thesis by (cases r) auto
  qed
qed

text \<open>
  A process whose messages so far are numbered 1 to \<open>seq\<close> keeps its messages numbered
  from 1 on, whatever calls follow and however they end.
\<close>

lemma route_adds_seq:
  assumes "route_adds pf calls w = (r, w')" and "0 \<le> seq w" and "seqs w = map int [1..<Suc (nat (seq w))]"
  shows "\<exists>n. seqs w' = map int [1..<Suc n]"
  using assms
proof (induction calls arbitrary: w r)
  case Nil
  then show ?case by (auto simp: ret_def)
next
  case (Cons c cs)
  obtain r1 w1 where
    s: "tun_route_add pf (rc_kernel c) (rc_locals c) (rc_af c) (rc_addr c) (rc_prefix_len c) w = (r1, w1)"
    by (cases "tun_route_add pf (rc_kernel c) (rc_locals c) (rc_af c) (rc_addr c) (rc_prefix_len c) w")
  have grow: "seqs w @ [seq w + 1] = map int [1..<Suc (nat (seq w + 1))]"
    using Cons.prems(2,3) by (simp add: nat_add_distrib)
  note step = tun_route_add_seq [OF s]
  show ?case
  proof (cases r1)
    case (Inl e)
    with Cons.prems(1) s have w: "w' = w1" by (simp add: bnd_def)
    from step Inl have "seqs w1 = seqs w \<or> seqs w1 = seqs w @ [seq w + 1]" by simp
    then have "seqs w1 = map int [1..<Suc (nat (seq w))]
               \<or> seqs w1 = map int [1..<Suc (nat (seq w + 1))]"
      using Cons.prems(3) grow by metis
    then show ?thesis unfolding w by blast
  next
    case (Inr x)
    with Cons.prems(1) s obtain r2 where
      "route_adds pf cs w1 = (r2, w')"
      by (auto simp: bnd_def ret_def split: sum.splits prod.splits)
    moreover from step Inr
    have "(seq w1 = seq w \<and> seqs w1 = seqs w)
          \<or> (seq w1 = seq w + 1 \<and> seqs w1 = seqs w @ [seq w + 1])" by simp
    then have "0 \<le> seq w1 \<and> seqs w1 = map int [1..<Suc (nat (seq w1))]"
      using Cons.prems(2,3) grow by (metis add_increasing2 zero_le_one)
    ultimately show ?thesis using Cons.IH by blast
  qed
qed

lemma sorted_wrt_upt_int: "sorted_wrt (<) (map int [a..<b])"
  by (simp add: sorted_wrt_map sorted_wrt_iff_nth_less)


text \<open>
  C9.  In a process whose counter is still zero and which has written no routing message,
  after any sequence of \<open>tun_route_add\<close> calls, however each of them ends, the messages
  written carry the sequence numbers 1, 2, 3, ... in the order of writing: each is
  strictly greater than all earlier ones and no two are equal.  (The counter is a C
  \<open>int\<close>; incrementing it at INT_MAX is undefined, and the model ends the process there
  without a message.)
\<close>

theorem route_adds_sequence_numbers:
  assumes "route_adds pf calls w = (r, w')" and "seq w = 0" and "written (trace w) = []"
  shows "seqs w' = map int [1..<Suc (length (seqs w'))]
         \<and> sorted_wrt (<) (seqs w') \<and> distinct (seqs w')"
proof -
  from assms(2,3) have "0 \<le> seq w" "seqs w = map int [1..<Suc (nat (seq w))]"
    by (simp_all add: seqs_def)
  from route_adds_seq [OF assms(1) this] obtain n where n: "seqs w' = map int [1..<Suc n]" ..
  then have "length (seqs w') = n" by simp
  with n have "seqs w' = map int [1..<Suc (length (seqs w'))]" by simp
  moreover have "sorted_wrt (<) (seqs w')" unfolding n by (rule sorted_wrt_upt_int)
  moreover have "distinct (seqs w')" unfolding n by (simp add: distinct_map)
  ultimately show ?thesis by simp
qed

text \<open>C9 on three calls in a fresh process whose interface is tun0: the numbers are 1, 2, 3.\<close>

theorem route_adds_sequence_numbers_witness:
  "seqs (snd (route_adds BSD [demo_call, demo_call, demo_call]
                (demo_world ''tun0''))) = [1, 2, 3]
   \<and> sorted_wrt (<) (seqs (snd (route_adds BSD [demo_call, demo_call, demo_call]
                (demo_world ''tun0''))))"
proof -
  let ?w = "demo_world ''tun0''"
  have e: "seqs (snd (route_adds BSD [demo_call, demo_call, demo_call] ?w)) = [1, 2, 3]"
    by code_simp
  have "seq ?w = 0" "written (trace ?w) = []" by (simp_all add: demo_world_def world0_def)
  from route_adds_sequence_numbers [OF prod.collapse [symmetric] this] e
  show ?thesis by simp
qed

text \<open>
  No link-layer entry of the interface: \<open>sdlp\<close> is still null after the loop, and line 327
  reads \<open>sdlp->sdl_len\<close>.  The \<open>errx\<close> of line 330 is never reached.
\<close>

lemma route_gateway_null_sdlp:
  assumes "k_getifaddrs k = Some ifap" and "find_sdl (tun_if_name w) ifap None = Inr None"
  shows "route_gateway k g w
           = (Inl (Undefined ''sdlp->sdl_len with null sdlp''),
              w\<lparr>trace := trace w @ [Sys_getifaddrs (Some ifap)]\<rparr>)"
  using assms by (simp add: route_gateway_def io_defs)

lemma find_sdl_fault: "find_sdl name ifap sdlp = Inl e \<Longrightarrow> \<exists>what. e = Undefined what"
  by (induction ifap arbitrary: sdlp) (auto split: option.splits if_splits)

lemma route_gateway_never_reports:
  "fst (route_gateway k g w) \<noteq> Inl (Exit ''cannot find a link-layer address of %s.'' args)"
  unfolding route_gateway_def io_defs
  by (auto split: if_splits option.splits sum.splits prod.splits dest!: find_sdl_fault)

text \<open>
  C5 is what the code means to do and does not do.  The exported name is tun1 and the
  interface list has link-layer entries for lo0 and tun0 only: the call ends in the
  null dereference, after \<open>getifaddrs\<close> and before any socket is opened, and no report
  naming tun1 is printed.
\<close>

theorem tun_route_add_no_link_layer:
  "find_sdl (name16 ''tun1'') demo_ifaddrs None = Inr None
   \<and> fst (tun_route_add BSD demo_kernel demo_locals AF_INET (Some [10, 1, 2, 0]) 24
            (demo_world ''tun1''))
       = Inl (Undefined ''sdlp->sdl_len with null sdlp'')
   \<and> trace (snd (tun_route_add BSD demo_kernel demo_locals AF_INET (Some [10, 1, 2, 0]) 24
            (demo_world ''tun1'')))
       = [Sys_getifaddrs (Some demo_ifaddrs)]"
  by code_simp

























end
